theory Spec2Isabelle
  imports Complex_Main "HOL-Library.Char_ord" "HOL-Library.List_Lexorder"
begin

section \<open>Air pollution dashboard: values, banding, summary, fetch and chat\<close>

text \<open>
  A shallow embedding of \<^verbatim>\<open>air_pollution.py\<close>. The script is a sequence of
  top-level statements around three helper functions; each helper is a HOL function of
  the same name, and the two top-level blocks the properties talk about (the dashboard
  render block and the chat submission handler) are functions of the values those blocks
  read.
\<close>

subsection \<open>Measured values\<close>

text \<open>
  The \<^verbatim>\<open>value\<close> column is a float column of the table: an entry is a number or
  NaN (a JSON null becomes NaN when the table is built). Numbers are exact: a value is
  the rational number written, a decimal literal of the source is its decimal value, and
  comparison and the mean are those of the rationals, without the rounding of binary
  floating point (the doubles nearest to 35.4, 55.4, 150.4 and 250.4 differ from these
  decimals by less than a hundred-trillionth). Infinities are left out.
  An argument of Python type ``float or None'' is a \<open>pyfloat option\<close>;
  \<^verbatim>\<open>pd.isna\<close> holds of None and of NaN, and of no number.
\<close>

datatype pyfloat = NaN | Num rat

subsection \<open>The AQI bander\<close>

text \<open>
  \<^verbatim>\<open>
  def indicative_aqi(pm25):
      if pd.isna(pm25): return "Unknown"
      if pm25 <= 12: return "Good"
      elif pm25 <= 35.4: return "Moderate"
      elif pm25 <= 55.4: return "Unhealthy for Sensitive Groups"
      elif pm25 <= 150.4: return "Unhealthy"
      elif pm25 <= 250.4: return "Very Unhealthy"
      else: return "Hazardous"
  \<close>
\<close>

fun indicative_aqi :: "pyfloat option \<Rightarrow> string" where
  "indicative_aqi None = ''Unknown''"
| "indicative_aqi (Some NaN) = ''Unknown''"
| "indicative_aqi (Some (Num pm25)) =
     (if pm25 \<le> 12 then ''Good''
      else if pm25 \<le> 35.4 then ''Moderate''
      else if pm25 \<le> 55.4 then ''Unhealthy for Sensitive Groups''
      else if pm25 \<le> 150.4 then ''Unhealthy''
      else if pm25 \<le> 250.4 then ''Very Unhealthy''
      else ''Hazardous'')"

subsection \<open>Strings\<close>

text \<open>
  Text is ASCII text, one \<open>char\<close> per character. \<open>show_nat\<close> is \<^verbatim>\<open>str\<close> of a
  non-negative integer, \<open>format_1f\<close> the format \<^verbatim>\<open>{x:.1f}\<close> of a finite number: the
  nearest multiple of one tenth of its exact value, a tie going to the even digit, with the
  sign kept when the number is negative. \<open>upper\<close> is \<^verbatim>\<open>str.upper\<close>, \<open>strip\<close> is
  \<^verbatim>\<open>str.strip\<close> with the ASCII whitespace characters (codes 9 to 13 and 28 to 32), and
  \<open>join\<close> is \<^verbatim>\<open>sep.join(parts)\<close>.
\<close>

function show_nat :: "nat \<Rightarrow> string" where
  "show_nat n =
     (if n < 10 then [char_of (48 + n)]
      else show_nat (n div 10) @ [char_of (48 + n mod 10)])"
  by pat_completeness auto
termination
  by (relation "measure id") auto

declare show_nat.simps [simp del]

definition round_half_even :: "rat \<Rightarrow> int" where
  "round_half_even x =
     (let f = \<lfloor>x\<rfloor>; d = x - of_int f
      in if d < 1 / 2 then f else if 1 / 2 < d then f + 1 else if even f then f else f + 1)"

definition format_1f :: "rat \<Rightarrow> string" where
  "format_1f x =
     (let n = nat (round_half_even (\<bar>x\<bar> * 10))
      in (if x < 0 then ''-'' else []) @ show_nat (n div 10) @ ''.'' @ show_nat (n mod 10))"

definition upper_char :: "char \<Rightarrow> char" where
  "upper_char c =
     (let n = (of_char c :: nat) in if 97 \<le> n \<and> n \<le> 122 then char_of (n - 32) else c)"

definition upper :: "string \<Rightarrow> string" where
  "upper s = map upper_char s"

definition is_space :: "char \<Rightarrow> bool" where
  "is_space c = (let n = (of_char c :: nat) in (9 \<le> n \<and> n \<le> 13) \<or> (28 \<le> n \<and> n \<le> 32))"

definition strip :: "string \<Rightarrow> string" where
  "strip s = rev (dropWhile is_space (rev (dropWhile is_space s)))"

fun join :: "string \<Rightarrow> string list \<Rightarrow> string" where
  "join sep [] = []"
| "join sep [x] = x"
| "join sep (x # y # ys) = x @ sep @ join sep (y # ys)"

subsection \<open>The measurement table\<close>

text \<open>
  One row of the table that \<^verbatim>\<open>fetch_openaq\<close> builds: the five columns
  \<^verbatim>\<open>datetime, location, parameter, value, unit\<close>. A field the JSON item lacks is
  None (NaT in the \<^verbatim>\<open>datetime\<close> column, NaN in the \<^verbatim>\<open>value\<close> column). An
  instant is an integer count of time units. The table is the list of its rows; it is
  \<^verbatim>\<open>df.empty\<close> when the list is empty.
\<close>

record row =
  datetime :: "int option"
  location :: "string option"
  parameter :: "string option"
  val :: pyfloat
  unit :: "string option"

subsection \<open>The pivot table\<close>

text \<open>
  \<^verbatim>\<open>df.pivot_table(index="datetime", columns="parameter", values="value", aggfunc="mean")\<close>
  as pandas computes it. With the default \<^verbatim>\<open>dropna=True\<close> its steps are
  \<^verbatim>\<open>
  grouped = data.groupby(keys, ..., dropna=dropna)      # keys = ["datetime", "parameter"]
  agged = grouped.agg(aggfunc)
  if dropna and ...: agged = agged.dropna(how="all")
  table = agged.unstack(to_unstack, fill_value=fill_value)
  \<close>
  \<^item> the rows are grouped by the pair (datetime, parameter); a row whose datetime or
    parameter is null belongs to no group (\<open>group_key\<close>, \<open>groupby_mean\<close>);
  \<^item> each group is aggregated to the mean of its non-null values, NaN when it has none
    (\<open>mean\<close>);
  \<^item> the groups whose aggregate is NaN are dropped (\<open>dropna_all\<close>);
  \<^item> the parameter level is unstacked: one row per remaining datetime, in ascending
    order, one column per remaining parameter, in ascending order, and NaN in a cell whose
    group is missing (\<open>unstack\<close>).
  A row of the pivot table is a datetime with the association list of its cells, the form
  \<^verbatim>\<open>to_dict(orient="records")\<close> gives it. The table's \<^verbatim>\<open>value\<close> column is taken
  to be numeric, as it is when at least one reading is a number.
\<close>

fun nums :: "pyfloat list \<Rightarrow> rat list" where
  "nums [] = []"
| "nums (NaN # xs) = nums xs"
| "nums (Num v # xs) = v # nums xs"

definition mean :: "pyfloat list \<Rightarrow> pyfloat" where
  "mean xs =
     (let vs = nums xs in if vs = [] then NaN else Num (sum_list vs / of_nat (length vs)))"

definition group_key :: "row \<Rightarrow> (int \<times> string) list" where
  "group_key r =
     (case datetime r of
        None \<Rightarrow> []
      | Some dt \<Rightarrow> (case parameter r of None \<Rightarrow> [] | Some p \<Rightarrow> [(dt, p)]))"

definition groupby_mean :: "row list \<Rightarrow> ((int \<times> string) \<times> pyfloat) list" where
  "groupby_mean df =
     map (\<lambda>k. (k, mean (map val (filter (\<lambda>r. group_key r = [k]) df))))
         (remdups (concat (map group_key df)))"

definition dropna_all :: "('k \<times> pyfloat) list \<Rightarrow> ('k \<times> pyfloat) list" where
  "dropna_all agged = filter (\<lambda>(k, m). m \<noteq> NaN) agged"

definition unstack ::
  "((int \<times> string) \<times> pyfloat) list \<Rightarrow> (int \<times> (string \<times> pyfloat) list) list" where
  "unstack agged =
     (let index = sort (remdups (map (fst \<circ> fst) agged));
          columns = sort (remdups (map (snd \<circ> fst) agged))
      in map (\<lambda>dt. (dt, map (\<lambda>p. (p, case map_of agged (dt, p) of
                                          None \<Rightarrow> NaN
                                        | Some m \<Rightarrow> m)) columns)) index)"

definition pivot_table :: "row list \<Rightarrow> (int \<times> (string \<times> pyfloat) list) list" where
  "pivot_table df = unstack (dropna_all (groupby_mean df))"

definition sort_index :: "(int \<times> 'a) list \<Rightarrow> (int \<times> 'a) list" where
  "sort_index t = sort_key fst t"

text \<open>\<^verbatim>\<open>pivot.tail(1)\<close>: the last row, or no row of an empty table.\<close>

definition tail1 :: "'a list \<Rightarrow> 'a list" where
  "tail1 xs = (if xs = [] then [] else [last xs])"

subsection \<open>The context summarizer\<close>

text \<open>
  \<^verbatim>\<open>
  def compose_context_summary(df):
      if df.empty:
          return "No recent measurements found."
      pivot = (df.pivot_table(index="datetime", columns="parameter",
                              values="value", aggfunc="mean").sort_index())
      latest = pivot.tail(1)
      latest_vals = latest.to_dict(orient="records")[0] if not latest.empty else {}
      pm25 = latest_vals.get("pm25")
      aqi_band = indicative_aqi(pm25)
      parts = [f"Latest indicative AQI (by PM2.5): {aqi_band}"]
      for k in ["pm25", "pm10", "no2", "o3", "so2"]:
          if k in latest_vals and pd.notna(latest_vals[k]):
              parts.append(f"{k.upper()}={latest_vals[k]:.1f}")
      return "; ".join(parts)
  \<close>
  \<open>field\<close> is one turn of the loop: what it appends to \<^verbatim>\<open>parts\<close> for the key
  \<open>k\<close>. \<open>summary_parts\<close> is the list \<^verbatim>\<open>parts\<close> when the loop has ended.
\<close>

definition field :: "(string \<times> pyfloat) list \<Rightarrow> string \<Rightarrow> string list" where
  "field latest_vals k =
     (case map_of latest_vals k of
        None \<Rightarrow> []
      | Some NaN \<Rightarrow> []
      | Some (Num v) \<Rightarrow> [upper k @ ''='' @ format_1f v])"

definition summary_parts :: "row list \<Rightarrow> string list" where
  "summary_parts df =
     (let pivot = sort_index (pivot_table df);
          latest = tail1 pivot;
          latest_vals = (if latest \<noteq> [] then snd (hd latest) else []);
          pm25 = map_of latest_vals ''pm25'';
          aqi_band = indicative_aqi pm25
      in [''Latest indicative AQI (by PM2.5): '' @ aqi_band]
         @ concat (map (field latest_vals) [''pm25'', ''pm10'', ''no2'', ''o3'', ''so2'']))"

definition compose_context_summary :: "row list \<Rightarrow> string" where
  "compose_context_summary df =
     (if df = [] then ''No recent measurements found.''
      else join ''; '' (summary_parts df))"

subsection \<open>The summary in the words of its description\<close>

text \<open>
  What the summary is said to be, written without the pivot table, to be compared with
  \<open>compose_context_summary\<close>. \<open>readings df dt p\<close> are the non-null readings of the
  pollutant \<open>p\<close> at the instant \<open>dt\<close>, duplicates included, and \<open>average\<close> their mean.
  \<open>all_times\<close> are the instants of the table, \<open>reading_times\<close> those that carry a
  non-null reading of a named pollutant, and \<open>latest_time\<close> is the latest of these.
  \<open>has_field parts k\<close> says that a field of the pollutant \<open>k\<close> stands among the parts
  after the first.
\<close>

definition tracked :: "string list" where
  "tracked = [''pm25'', ''pm10'', ''no2'', ''o3'', ''so2'']"

definition readings :: "row list \<Rightarrow> int \<Rightarrow> string \<Rightarrow> rat list" where
  "readings df dt p =
     nums (map val (filter (\<lambda>r. datetime r = Some dt \<and> parameter r = Some p) df))"

definition average :: "rat list \<Rightarrow> rat" where
  "average vs = sum_list vs / of_nat (length vs)"

definition all_times :: "row list \<Rightarrow> int list" where
  "all_times df = concat (map (\<lambda>r. case datetime r of None \<Rightarrow> [] | Some dt \<Rightarrow> [dt]) df)"

definition reading_times :: "row list \<Rightarrow> int list" where
  "reading_times df =
     all_times (filter (\<lambda>r. parameter r \<noteq> None \<and> val r \<noteq> NaN) df)"

definition latest_time :: "row list \<Rightarrow> int option" where
  "latest_time df =
     (let ts = reading_times df in if ts = [] then None else Some (Max (set ts)))"

definition spec_band :: "row list \<Rightarrow> int \<Rightarrow> string" where
  "spec_band df dt =
     (let vs = readings df dt ''pm25''
      in indicative_aqi (if vs = [] then None else Some (Num (average vs))))"

definition spec_field :: "row list \<Rightarrow> int \<Rightarrow> string \<Rightarrow> string list" where
  "spec_field df dt k =
     (let vs = readings df dt k
      in if vs = [] then [] else [upper k @ ''='' @ format_1f (average vs)])"


definition has_field :: "string list \<Rightarrow> string \<Rightarrow> bool" where
  "has_field parts k = list_ex (\<lambda>s. take (length k + 1) s = upper k @ ''='') (tl parts)"

subsection \<open>The measurement fetcher\<close>

text \<open>
  \<^verbatim>\<open>
  def fetch_openaq(city, country, hours):
      params = {"city": city, ..., "date_from": now - hours, "date_to": now}
      if country.strip():
          params["country"] = country.strip()
      r = requests.get(base, params=params, timeout=20)
      r.raise_for_status()
      data = r.json().get("results", [])
      if not data:
          return pd.DataFrame()
      rows = []
      for item in data: rows.append({...})
      df = pd.DataFrame(rows)
      ...
      return df
  \<close>
  The network is a function \<open>get\<close> from the query to what \<^verbatim>\<open>requests.get\<close> does with
  it: it raises (no connection, a timeout), or it returns a response with a status code and
  a body. The body either is not the JSON the code reads (then \<^verbatim>\<open>r.json()\<close> or
  \<^verbatim>\<open>.get\<close> raises) or holds the list \<^verbatim>\<open>results\<close>, empty when the key is missing;
  an item of the list is given as the row the loop builds from it, its date parsed.
  \<^verbatim>\<open>raise_for_status\<close> is that of the requests library: it raises an HTTPError for a
  status from 400 to 499 (a client error) and from 500 to 599 (a server error), and for
  no other status; of its message, the status and the kind of error are kept, the reason
  phrase and the URL left out. Every exception that leaves \<^verbatim>\<open>fetch_openaq\<close> is a
  \<open>FetchError\<close> with its message.
\<close>

record query =
  q_city :: string
  q_country :: "string option"
  q_hours :: nat

datatype body = NotJson string | Results "row list"

datatype http_result = ConnectionFailed string | HttpResponse nat body

datatype error = FetchError string

definition raise_for_status :: "nat \<Rightarrow> string option" where
  "raise_for_status status =
     (if 400 \<le> status \<and> status < 500 then Some (show_nat status @ '' Client Error'')
      else if 500 \<le> status \<and> status < 600 then Some (show_nat status @ '' Server Error'')
      else None)"

definition params_of :: "string \<Rightarrow> string \<Rightarrow> nat \<Rightarrow> query" where
  "params_of city country hours =
     \<lparr>q_city = city,
      q_country = (if strip country \<noteq> [] then Some (strip country) else None),
      q_hours = hours\<rparr>"

definition fetch_openaq ::
  "(query \<Rightarrow> http_result) \<Rightarrow> string \<Rightarrow> string \<Rightarrow> nat \<Rightarrow> error + row list" where
  "fetch_openaq get city country hours =
     (let params = params_of city country hours
      in case get params of
           ConnectionFailed e \<Rightarrow> Inl (FetchError e)
         | HttpResponse status b \<Rightarrow>
             (case raise_for_status status of
                Some e \<Rightarrow> Inl (FetchError e)
              | None \<Rightarrow>
                  (case b of
                     NotJson e \<Rightarrow> Inl (FetchError e)
                   | Results data \<Rightarrow> if data = [] then Inr [] else Inr data)))"

subsection \<open>The dashboard render block\<close>

text \<open>
  \<^verbatim>\<open>
  status = st.empty()
  try:
      df = fetch_openaq(city, country, hours)
      if df.empty:
          status.warning("No data for selected inputs.")
      else:
          status.success(f"Fetched {len(df)} measurements.")
          ... charts ...
  except Exception as e:
      status.error(f"Data fetch error: {e}")
  ...
  ctx_summary = compose_context_summary(df if 'df' in locals() else pd.DataFrame())
  st.metric(label="Summary", value=ctx_summary.split(';')[0] if ctx_summary else "Unknown")
  \<close>
  The script runs in a fresh namespace at every render, so \<^verbatim>\<open>df\<close> is bound exactly
  when the assignment was reached: \<open>df_bound\<close> is None when the fetch raised. The result
  is \<open>Inr\<close> of what the block shows, \<open>Inl\<close> standing for an exception that leaves the
  block. The two charts are not modelled.
\<close>

datatype status = Warning string | Success string | Error string

record rendered =
  status_shown :: status
  df_bound :: "row list option"
  ctx_summary :: string
  metric :: string

definition dashboard ::
  "(query \<Rightarrow> http_result) \<Rightarrow> string \<Rightarrow> string \<Rightarrow> nat \<Rightarrow> error + rendered" where
  "dashboard get city country hours =
     (let (shown, df) =
            (case fetch_openaq get city country hours of
               Inr df \<Rightarrow>
                 (if df = [] then Warning ''No data for selected inputs.''
                  else Success (''Fetched '' @ show_nat (length df) @ '' measurements.''),
                  Some df)
             | Inl (FetchError e) \<Rightarrow> (Error (''Data fetch error: '' @ e), None));
          summary = compose_context_summary (case df of Some d \<Rightarrow> d | None \<Rightarrow> [])
      in Inr \<lparr>status_shown = shown, df_bound = df, ctx_summary = summary,
              metric = (if summary \<noteq> [] then takeWhile (\<lambda>c. c \<noteq> CHR '';'') summary
                        else ''Unknown'')\<rparr>)"

subsection \<open>The chat submission handler\<close>

text \<open>
  \<^verbatim>\<open>
  GEMINI_KEY = os.getenv("Your api key here")
  ...
  model = None
  try:
      if GEMINI_KEY:
          model = genai.GenerativeModel("gemini-1.5-flash")
  except Exception as e:
      st.error(f"Gemini init error: {e}")
  \<close>
  The model object is the function from a prompt to what \<^verbatim>\<open>generate_content\<close> does
  with it: it raises, or it returns a response, whose \<^verbatim>\<open>text\<close> attribute is missing,
  is a string, or raises when it is read.
\<close>

datatype response = NoText | Text string | TextRaises string

datatype reply = Raises string | Returns response

type_synonym generative_model = "string \<Rightarrow> reply"

definition init_model ::
  "string option \<Rightarrow> string + generative_model \<Rightarrow> generative_model option" where
  "init_model gemini_key constructed =
     (case gemini_key of
        None \<Rightarrow> None
      | Some k \<Rightarrow>
          if k \<noteq> [] then (case constructed of Inl e \<Rightarrow> None | Inr m \<Rightarrow> Some m)
          else None)"

text \<open>
  \<^verbatim>\<open>
  if send and user_msg.strip():
      st.session_state.chat_history.append(("user", user_msg))
      context = ctx_summary
      final_prompt = (f"{system_prompt()}\n\n"
                      f"Context for city '{city}': {context}\n\n"
                      f"User: {user_msg}\nAssistant:")
      try:
          if model:
              resp = model.generate_content(final_prompt)
              answer = resp.text.strip() if hasattr(resp, "text") else "No response."
          else:
              answer = "Gemini is not configured. Please set GEMINI_API_KEY."
      except Exception as e:
          answer = f"Model error: {e}"
      st.session_state.chat_history.append(("assistant", answer))
  \<close>
  The session state is the chat log; \<open>api_calls\<close> records, in order, the prompts passed
  to \<^verbatim>\<open>generate_content\<close>, so that a call of the external service is visible in the
  state.
\<close>

record session =
  chat_history :: "(string \<times> string) list"
  api_calls :: "string list"

definition system_prompt :: string where
  "system_prompt =
     ''You are an air quality assistant. Explain AQI categories, health effects, and safe actions ''
     @ ''in clear, concise terms. Use the provided context when relevant. If the AQI is 'Unknown', ''
     @ ''suggest checking more locations or time ranges. Avoid medical advice; keep it general.''"

definition final_prompt :: "string \<Rightarrow> string \<Rightarrow> string \<Rightarrow> string" where
  "final_prompt city context user_msg =
     system_prompt @ ''\<newline>\<newline>''
     @ ''Context for city '' @ [CHR 0x27] @ city @ [CHR 0x27] @ '': '' @ context
     @ ''\<newline>\<newline>''
     @ ''User: '' @ user_msg @ ''\<newline>Assistant:''"

definition answer_of :: "generative_model option \<Rightarrow> string \<Rightarrow> string \<times> string list" where
  "answer_of model prompt =
     (case model of
        Some m \<Rightarrow>
          (case m prompt of
             Returns (Text t) \<Rightarrow> (strip t, [prompt])
           | Returns NoText \<Rightarrow> (''No response.'', [prompt])
           | Returns (TextRaises e) \<Rightarrow> (''Model error: '' @ e, [prompt])
           | Raises e \<Rightarrow> (''Model error: '' @ e, [prompt]))
      | None \<Rightarrow> (''Gemini is not configured. Please set GEMINI_API_KEY.'', []))"

definition chat_submit ::
  "generative_model option \<Rightarrow> string \<Rightarrow> string \<Rightarrow> bool \<Rightarrow> string \<Rightarrow> session \<Rightarrow> session" where
  "chat_submit model city context send user_msg s =
     (if send \<and> strip user_msg \<noteq> [] then
        (let s1 = s\<lparr>chat_history := chat_history s @ [(''user'', user_msg)]\<rparr>;
             (answer, calls) = answer_of model (final_prompt city context user_msg)
         in s1\<lparr>chat_history := chat_history s1 @ [(''assistant'', answer)],
                api_calls := api_calls s1 @ calls\<rparr>)
      else s)"

section \<open>Properties\<close>

subsection \<open>The bander\<close>

text \<open>
  C1: for every PM2.5 input, an absent value (None) and NaN give "Unknown"; a number
  \<open>v\<close> gives "Good" when \<open>v \<le> 12\<close>, "Moderate" when \<open>12 < v \<le> 35.4\<close>,
  "Unhealthy for Sensitive Groups" when \<open>35.4 < v \<le> 55.4\<close>, "Unhealthy" when
  \<open>55.4 < v \<le> 150.4\<close>, "Very Unhealthy" when \<open>150.4 < v \<le> 250.4\<close> and
  "Hazardous" when \<open>250.4 < v\<close>; in particular 12 gives "Good" and 12.1 gives
  "Moderate".
\<close>

theorem indicative_aqi_bands:
  "indicative_aqi None = ''Unknown''
   \<and> indicative_aqi (Some NaN) = ''Unknown''
   \<and> (v \<le> 12 \<longrightarrow> indicative_aqi (Some (Num v)) = ''Good'')
   \<and> (12 < v \<and> v \<le> 35.4 \<longrightarrow> indicative_aqi (Some (Num v)) = ''Moderate'')
   \<and> (35.4 < v \<and> v \<le> 55.4 \<longrightarrow>
        indicative_aqi (Some (Num v)) = ''Unhealthy for Sensitive Groups'')
   \<and> (55.4 < v \<and> v \<le> 150.4 \<longrightarrow> indicative_aqi (Some (Num v)) = ''Unhealthy'')
   \<and> (150.4 < v \<and> v \<le> 250.4 \<longrightarrow> indicative_aqi (Some (Num v)) = ''Very Unhealthy'')
   \<and> (250.4 < v \<longrightarrow> indicative_aqi (Some (Num v)) = ''Hazardous'')
   \<and> indicative_aqi (Some (Num 12)) = ''Good''
   \<and> indicative_aqi (Some (Num 12.1)) = ''Moderate''"
  by simp

theorem indicative_aqi_bands_witness:
  "indicative_aqi (Some (Num 7)) = ''Good''
   \<and> indicative_aqi (Some (Num 20)) = ''Moderate''
   \<and> indicative_aqi (Some (Num 40)) = ''Unhealthy for Sensitive Groups''
   \<and> indicative_aqi (Some (Num 100)) = ''Unhealthy''
   \<and> indicative_aqi (Some (Num 200)) = ''Very Unhealthy''
   \<and> indicative_aqi (Some (Num 300)) = ''Hazardous''"
proof -
  have "indicative_aqi (Some (Num 7)) = ''Good''"
    using indicative_aqi_bands [of 7] by simp
  moreover have "indicative_aqi (Some (Num 20)) = ''Moderate''"
    using indicative_aqi_bands [of 20] by simp
  moreover have "indicative_aqi (Some (Num 40)) = ''Unhealthy for Sensitive Groups''"
    using indicative_aqi_bands [of 40] by simp
  moreover have "indicative_aqi (Some (Num 100)) = ''Unhealthy''"
    using indicative_aqi_bands [of 100] by simp
  moreover have "indicative_aqi (Some (Num 200)) = ''Very Unhealthy''"
    using indicative_aqi_bands [of 200] by simp
  moreover have "indicative_aqi (Some (Num 300)) = ''Hazardous''"
    using indicative_aqi_bands [of 300] by simp
  ultimately show ?thesis by blast
qed

text \<open>
  C9: there is no lower bound on the input: every negative number, and with it every
  number that is at most 12, is banded "Good"; it is neither rejected nor "Unknown".
  The bander always returns a band, so a rejection is not among its results.
\<close>

theorem indicative_aqi_negative_good:
  "(v < 0 \<longrightarrow> indicative_aqi (Some (Num v)) = ''Good'')
   \<and> (v \<le> 12 \<longrightarrow> indicative_aqi (Some (Num v)) = ''Good''
        \<and> indicative_aqi (Some (Num v)) \<noteq> ''Unknown'')
   \<and> indicative_aqi (Some (Num (- 5))) = ''Good''"
  by simp

theorem indicative_aqi_negative_good_witness:
  "(- 5 :: rat) < 0 \<and> indicative_aqi (Some (Num (- 5))) = ''Good''
   \<and> indicative_aqi (Some (Num (- 5))) \<noteq> ''Unknown''"
  using indicative_aqi_negative_good [of "- 5"] by simp

subsection \<open>The summarizer on the empty table\<close>

text \<open>
  C4: for the empty measurement table the summarizer returns one fixed sentence,
  "No recent measurements found."; the summarizer is a function of the table alone, so
  every call on the empty table returns this same string.
\<close>

theorem summary_empty_table:
  "compose_context_summary [] = ''No recent measurements found.''"
  by (simp add: compose_context_summary_def)

subsection \<open>Evaluated strings\<close>

lemma show_nat_examples: "show_nat (Suc 0) = ''1''" "show_nat 500 = ''500''"
  by code_simp+

lemma format_1f_examples: "format_1f 10 = ''10.0''" "format_1f 20 = ''20.0''"
  by code_simp+

lemma upper_examples: "upper ''pm25'' = ''PM25''" "upper ''pm10'' = ''PM10''"
  "upper ''no2'' = ''NO2''" "upper ''o3'' = ''O3''" "upper ''so2'' = ''SO2''"
  by code_simp+

subsection \<open>The pivot table, cell by cell\<close>

text \<open>
  The group of a key are the rows with that datetime and that parameter; its aggregate is
  the average of the group's non-null readings, and NaN when there is none.
\<close>

lemma group_key_eq:
  "group_key r = [(dt, p)] \<longleftrightarrow> datetime r = Some dt \<and> parameter r = Some p"
  by (simp add: group_key_def split: option.splits)

lemma group_mean_readings:
  "mean (map val (filter (\<lambda>r. group_key r = [(dt, p)]) df))
     = (if readings df dt p = [] then NaN else Num (average (readings df dt p)))"
  by (simp add: mean_def readings_def average_def group_key_eq Let_def)

lemma nums_Nil_iff: "nums xs = [] \<longleftrightarrow> (\<forall>x\<in>set xs. x = NaN)"
  by (induction xs rule: nums.induct) auto

lemma readings_nonempty_iff:
  "readings df dt p \<noteq> [] \<longleftrightarrow>
     (\<exists>r\<in>set df. datetime r = Some dt \<and> parameter r = Some p \<and> val r \<noteq> NaN)"
  by (auto simp: readings_def nums_Nil_iff)

lemma set_all_times: "set (all_times df) = {dt. \<exists>r\<in>set df. datetime r = Some dt}"
  by (auto simp: all_times_def split: option.splits)

lemma set_reading_times:
  "set (reading_times df) = {dt. \<exists>p. readings df dt p \<noteq> []}"
  by (auto simp: reading_times_def set_all_times readings_nonempty_iff)

lemma group_nonempty_key:
  "mean (map val (filter (\<lambda>r. group_key r = [k]) df)) \<noteq> NaN \<Longrightarrow>
   k \<in> set (concat (map group_key df))"
  by (auto simp: mean_def Let_def nums_Nil_iff split: if_splits) force

lemma dropna_groupby:
  "dropna_all (groupby_mean df)
     = map (\<lambda>k. (k, mean (map val (filter (\<lambda>r. group_key r = [k]) df))))
         (filter (\<lambda>k. mean (map val (filter (\<lambda>r. group_key r = [k]) df)) \<noteq> NaN)
            (remdups (concat (map group_key df))))"
  by (simp add: dropna_all_def groupby_mean_def filter_map o_def)

lemma cell_eq:
  "(case map_of (dropna_all (groupby_mean df)) (dt, p) of None \<Rightarrow> NaN | Some m \<Rightarrow> m)
     = (if readings df dt p = [] then NaN else Num (average (readings df dt p)))"
  using group_nonempty_key [of "(dt, p)" df]
  by (simp add: dropna_groupby map_of_map_restrict restrict_map_def group_mean_readings)

text \<open>The index holds the instants with a non-null reading, the columns the pollutants
  with one.\<close>

lemma index_set:
  "set (map (fst \<circ> fst) (dropna_all (groupby_mean df))) = set (reading_times df)"
proof -
  have "set (map (fst \<circ> fst) (dropna_all (groupby_mean df)))
      = {dt. \<exists>p. (dt, p) \<in> set (concat (map group_key df))
               \<and> mean (map val (filter (\<lambda>r. group_key r = [(dt, p)]) df)) \<noteq> NaN}"
    by (force simp: dropna_groupby)
  also have "\<dots> = {dt. \<exists>p. readings df dt p \<noteq> []}"
    using group_nonempty_key [of _ df] by (auto simp: group_mean_readings split: if_splits)
  finally show ?thesis by (simp add: set_reading_times)
qed

lemma columns_set:
  "set (map (snd \<circ> fst) (dropna_all (groupby_mean df))) = {p. \<exists>dt. readings df dt p \<noteq> []}"
proof -
  have "set (map (snd \<circ> fst) (dropna_all (groupby_mean df)))
      = {p. \<exists>dt. (dt, p) \<in> set (concat (map group_key df))
               \<and> mean (map val (filter (\<lambda>r. group_key r = [(dt, p)]) df)) \<noteq> NaN}"
    by (force simp: dropna_groupby)
  also have "\<dots> = {p. \<exists>dt. readings df dt p \<noteq> []}"
    using group_nonempty_key [of _ df] by (auto simp: group_mean_readings split: if_splits)
  finally show ?thesis .
qed

lemma pivot_table_eq:
  "pivot_table df =
     map (\<lambda>dt. (dt, map (\<lambda>p. (p, if readings df dt p = [] then NaN
                                     else Num (average (readings df dt p))))
                     (sort (remdups (map (snd \<circ> fst) (dropna_all (groupby_mean df)))))))
         (sort (remdups (map (fst \<circ> fst) (dropna_all (groupby_mean df)))))"
  by (simp add: pivot_table_def unstack_def Let_def cell_eq)

text \<open>The pivot table is sorted already, and its last row is the latest instant.\<close>

lemma sort_index_pivot: "sort_index (pivot_table df) = pivot_table df"
  unfolding sort_index_def
  by (rule sort_key_id_if_sorted) (simp add: pivot_table_eq o_def sorted_sort)

lemma last_sorted_Max: "sorted xs \<Longrightarrow> xs \<noteq> [] \<Longrightarrow> last xs = Max (set xs)"
proof (induction xs)
  case Nil
  then show ?case by simp
next
  case (Cons x xs)
  show ?case
  proof (cases "xs = []")
    case True
    then show ?thesis by simp
  next
    case False
    with Cons have "last xs = Max (set xs)" by simp
    moreover from Cons.prems False have "x \<le> Max (set xs)"
      by (metis List.finite_set Max_ge_iff last_in_set set_empty sorted_simps(2))
    ultimately show ?thesis using False by (simp add: max_def)
  qed
qed

lemma last_sort_remdups:
  assumes "xs \<noteq> []"
  shows "last (sort (remdups xs)) = Max (set xs)"
proof -
  have "set (sort (remdups xs)) = set xs" by simp
  with assms have "sort (remdups xs) \<noteq> []" by (metis set_empty)
  then show ?thesis
    using last_sorted_Max [of "sort (remdups xs)"] by simp
qed

lemma index_Nil_iff:
  "map (fst \<circ> fst) (dropna_all (groupby_mean df)) = [] \<longleftrightarrow> reading_times df = []"
  using index_set [of df] by (metis set_empty)

lemma pivot_Nil_iff: "pivot_table df = [] \<longleftrightarrow> reading_times df = []"
proof -
  have "pivot_table df = []
      \<longleftrightarrow> sort (remdups (map (fst \<circ> fst) (dropna_all (groupby_mean df)))) = []"
    by (simp add: pivot_table_eq)
  also have "\<dots> \<longleftrightarrow> map (fst \<circ> fst) (dropna_all (groupby_mean df)) = []"
    by (metis set_empty set_sort set_remdups)
  finally show ?thesis by (simp only: index_Nil_iff)
qed

lemma latest_vals_eq:
  assumes "reading_times df \<noteq> []"
  shows "snd (last (pivot_table df))
     = map (\<lambda>p. (p, if readings df (Max (set (reading_times df))) p = [] then NaN
                    else Num (average (readings df (Max (set (reading_times df))) p))))
         (sort (remdups (map (snd \<circ> fst) (dropna_all (groupby_mean df)))))"
proof -
  let ?ix = "map (fst \<circ> fst) (dropna_all (groupby_mean df))"
  from assms have ne: "?ix \<noteq> []" by (simp only: index_Nil_iff not_False_eq_True)
  then have ne': "sort (remdups ?ix) \<noteq> []" by (metis set_empty set_sort set_remdups)
  have "last (sort (remdups ?ix)) = Max (set (reading_times df))"
    using last_sort_remdups [OF ne] by (simp only: index_set)
  then show ?thesis
    using ne' by (simp add: pivot_table_eq last_map)
qed

text \<open>Reading the latest row as a dictionary.\<close>

lemma map_of_latest_vals:
  "map_of (map (\<lambda>p. (p, if readings df t p = [] then NaN else Num (average (readings df t p))))
             (sort (remdups (map (snd \<circ> fst) (dropna_all (groupby_mean df)))))) k
     = (if \<exists>dt. readings df dt k \<noteq> []
        then Some (if readings df t k = [] then NaN else Num (average (readings df t k)))
        else None)"
  using columns_set [of df]
  by (simp add: map_of_map_restrict restrict_map_def)

lemma field_latest_vals:
  "field (map (\<lambda>p. (p, if readings df t p = [] then NaN else Num (average (readings df t p))))
             (sort (remdups (map (snd \<circ> fst) (dropna_all (groupby_mean df)))))) k
     = spec_field df t k"
  by (auto simp: field_def spec_field_def map_of_latest_vals Let_def)

lemma band_latest_vals:
  "indicative_aqi (map_of
       (map (\<lambda>p. (p, if readings df t p = [] then NaN else Num (average (readings df t p))))
          (sort (remdups (map (snd \<circ> fst) (dropna_all (groupby_mean df)))))) ''pm25'')
     = spec_band df t"
  by (auto simp: spec_band_def map_of_latest_vals Let_def)

lemma summary_parts_eq:
  "summary_parts df =
     (case latest_time df of
        None \<Rightarrow> [''Latest indicative AQI (by PM2.5): Unknown'']
      | Some t \<Rightarrow> (''Latest indicative AQI (by PM2.5): '' @ spec_band df t)
                   # concat (map (spec_field df t) tracked))"
proof (cases "reading_times df = []")
  case True
  then have "pivot_table df = []" by (simp only: pivot_Nil_iff)
  with True show ?thesis
    by (simp add: summary_parts_def sort_index_def tail1_def latest_time_def field_def Let_def)
next
  case False
  then have "pivot_table df \<noteq> []" by (simp only: pivot_Nil_iff not_False_eq_True)
  with False show ?thesis
    by (simp add: summary_parts_def sort_index_pivot tail1_def latest_time_def Let_def
        latest_vals_eq field_latest_vals band_latest_vals tracked_def)
qed

lemma has_field_spec:
  assumes "k \<in> set tracked"
  shows "list_ex (\<lambda>s. take (length k + 1) s = upper k @ ''='')
           (concat (map (spec_field df t) tracked)) \<longleftrightarrow> readings df t k \<noteq> []"
  using assms
  by (auto simp: tracked_def spec_field_def upper_examples Let_def)

subsection \<open>The summarizer on a table with rows\<close>

text \<open>
  C2 as stated fails. In the table below the latest instant is 2, and the only reading
  of pm25 at the instant 2 is null; the group of a null reading alone is dropped from the
  pivot table, so the latest row of the pivot table is that of the instant 1, and the
  summary carries the field PM25=10.0 although pm25 is null at the latest instant.
\<close>

theorem summary_latest_null_counterexample:
  "Max (set (all_times
      [\<lparr>datetime = Some 1, location = None, parameter = Some ''pm25'', val = Num 10, unit = None\<rparr>,
       \<lparr>datetime = Some 2, location = None, parameter = Some ''pm25'', val = NaN, unit = None\<rparr>]))
     = 2
   \<and> readings
      [\<lparr>datetime = Some 1, location = None, parameter = Some ''pm25'', val = Num 10, unit = None\<rparr>,
       \<lparr>datetime = Some 2, location = None, parameter = Some ''pm25'', val = NaN, unit = None\<rparr>]
      2 ''pm25'' = []
   \<and> compose_context_summary
      [\<lparr>datetime = Some 1, location = None, parameter = Some ''pm25'', val = Num 10, unit = None\<rparr>,
       \<lparr>datetime = Some 2, location = None, parameter = Some ''pm25'', val = NaN, unit = None\<rparr>]
     = ''Latest indicative AQI (by PM2.5): Good; PM25=10.0''"
  by (simp add: all_times_def readings_def compose_context_summary_def summary_parts_def
      pivot_table_def unstack_def dropna_all_def groupby_mean_def group_key_def mean_def
      sort_index_def tail1_def field_def format_1f_examples upper_examples Let_def)

text \<open>
  C2, amended: a table with one instant, pm25 = 10.0 and no2 = 20.0 at that instant and no
  other row (whatever the instant, the locations and the units) is summarized as
  "Latest indicative AQI (by PM2.5): Good; PM25=10.0; NO2=20.0"; and for every table, a
  field of a tracked pollutant stands in the summary's parts exactly when that pollutant
  has a non-null reading at the latest instant that carries a non-null reading of some
  named pollutant.
\<close>

theorem summary_example_and_fields:
  "compose_context_summary
     [\<lparr>datetime = Some t, location = l1, parameter = Some ''pm25'', val = Num 10, unit = u1\<rparr>,
      \<lparr>datetime = Some t, location = l2, parameter = Some ''no2'', val = Num 20, unit = u2\<rparr>]
     = ''Latest indicative AQI (by PM2.5): Good; PM25=10.0; NO2=20.0''
   \<and> (k \<in> set tracked \<longrightarrow>
        has_field (summary_parts df) k
          = (\<exists>t'. latest_time df = Some t' \<and> readings df t' k \<noteq> []))"
proof
  show "compose_context_summary
     [\<lparr>datetime = Some t, location = l1, parameter = Some ''pm25'', val = Num 10, unit = u1\<rparr>,
      \<lparr>datetime = Some t, location = l2, parameter = Some ''no2'', val = Num 20, unit = u2\<rparr>]
     = ''Latest indicative AQI (by PM2.5): Good; PM25=10.0; NO2=20.0''"
    by (simp add: compose_context_summary_def summary_parts_def pivot_table_def unstack_def
        dropna_all_def groupby_mean_def group_key_def mean_def sort_index_def tail1_def
        field_def format_1f_examples upper_examples Let_def)
next
  show "k \<in> set tracked \<longrightarrow>
        has_field (summary_parts df) k
          = (\<exists>t'. latest_time df = Some t' \<and> readings df t' k \<noteq> [])"
  proof
    assume k: "k \<in> set tracked"
    show "has_field (summary_parts df) k
          = (\<exists>t'. latest_time df = Some t' \<and> readings df t' k \<noteq> [])"
    proof (cases "latest_time df")
      case None
      then show ?thesis by (simp add: has_field_def summary_parts_eq)
    next
      case (Some t')
      then show ?thesis
        using has_field_spec [OF k, of df t'] by (simp add: has_field_def summary_parts_eq)
    qed
  qed
qed

theorem summary_example_and_fields_witness:
  "has_field (summary_parts
      [\<lparr>datetime = Some 1, location = None, parameter = Some ''pm25'', val = Num 10, unit = None\<rparr>,
       \<lparr>datetime = Some 2, location = None, parameter = Some ''o3'', val = Num 30, unit = None\<rparr>,
       \<lparr>datetime = Some 2, location = None, parameter = Some ''no2'', val = NaN, unit = None\<rparr>])
      ''o3''
   \<and> \<not> has_field (summary_parts
      [\<lparr>datetime = Some 1, location = None, parameter = Some ''pm25'', val = Num 10, unit = None\<rparr>,
       \<lparr>datetime = Some 2, location = None, parameter = Some ''o3'', val = Num 30, unit = None\<rparr>,
       \<lparr>datetime = Some 2, location = None, parameter = Some ''no2'', val = NaN, unit = None\<rparr>])
      ''pm25''"
proof -
  let ?df = "[\<lparr>datetime = Some 1, location = None, parameter = Some ''pm25'', val = Num 10,
                unit = None\<rparr>,
       \<lparr>datetime = Some 2, location = None, parameter = Some ''o3'', val = Num 30, unit = None\<rparr>,
       \<lparr>datetime = Some 2, location = None, parameter = Some ''no2'', val = NaN, unit = None\<rparr>]"
  have lt: "latest_time ?df = Some 2"
    by (simp add: latest_time_def reading_times_def all_times_def)
  have r1: "readings ?df 2 ''o3'' \<noteq> []" and r2: "readings ?df 2 ''pm25'' = []"
    by (simp_all add: readings_def)
  have t: "''o3'' \<in> set tracked" "''pm25'' \<in> set tracked"
    by (simp_all add: tracked_def)
  show ?thesis
    using summary_example_and_fields [of 0 None None None None "''o3''" ?df]
      summary_example_and_fields [of 0 None None None None "''pm25''" ?df] lt r1 r2 t
    by simp
qed





subsection \<open>A failed fetch\<close>

text \<open>
  C7 as stated fails: a status outside 200 to 299 is not always an error of the fetch.
  A response with the status 300 and a body that holds one measurement raises nothing in
  \<^verbatim>\<open>raise_for_status\<close>; the fetch returns the table, and the dashboard shows it.
\<close>

theorem fetch_redirect_status_counterexample:
  "\<not> (200 \<le> (300::nat) \<and> (300::nat) < 300)
   \<and> fetch_openaq
       (\<lambda>q. HttpResponse 300 (Results
          [\<lparr>datetime = Some 1, location = Some ''A'', parameter = Some ''pm25'', val = Num 10,
            unit = Some ''ug/m3''\<rparr>])) ''Jaipur'' [] 24
     = Inr [\<lparr>datetime = Some 1, location = Some ''A'', parameter = Some ''pm25'', val = Num 10,
            unit = Some ''ug/m3''\<rparr>]
   \<and> dashboard
       (\<lambda>q. HttpResponse 300 (Results
          [\<lparr>datetime = Some 1, location = Some ''A'', parameter = Some ''pm25'', val = Num 10,
            unit = Some ''ug/m3''\<rparr>])) ''Jaipur'' [] 24
     = Inr \<lparr>status_shown = Success ''Fetched 1 measurements.'',
            df_bound = Some [\<lparr>datetime = Some 1, location = Some ''A'',
               parameter = Some ''pm25'', val = Num 10, unit = Some ''ug/m3''\<rparr>],
            ctx_summary = ''Latest indicative AQI (by PM2.5): Good; PM25=10.0'',
            metric = ''Latest indicative AQI (by PM2.5): Good''\<rparr>"
  by (simp add: fetch_openaq_def dashboard_def raise_for_status_def show_nat_examples
      compose_context_summary_def summary_parts_def pivot_table_def unstack_def
      dropna_all_def groupby_mean_def group_key_def mean_def sort_index_def tail1_def field_def
      format_1f_examples upper_examples Let_def)

text \<open>
  C7, amended: when the request fails in the network, or the response has a status from
  400 to 599 (500 for one), the fetch fails with a FetchError; the render block catches
  it and shows "Data fetch error: " with the message as an inline error; no exception
  leaves the block (its result is \<open>Inr\<close>); the table stays unbound, and the context
  summary is that of the empty table, the no-data sentence, which is also the headline
  metric.
\<close>

theorem fetch_failure_caught:
  "get (params_of city country hours) = ConnectionFailed e
   \<or> (\<exists>b. get (params_of city country hours) = HttpResponse status b
         \<and> 400 \<le> status \<and> status < 600) \<Longrightarrow>
   \<exists>msg. fetch_openaq get city country hours = Inl (FetchError msg)
     \<and> dashboard get city country hours
         = Inr \<lparr>status_shown = Error (''Data fetch error: '' @ msg), df_bound = None,
                ctx_summary = ''No recent measurements found.'',
                metric = ''No recent measurements found.''\<rparr>"
  by (auto simp: fetch_openaq_def dashboard_def raise_for_status_def
      compose_context_summary_def Let_def)

theorem fetch_failure_caught_witness:
  "fetch_openaq (\<lambda>q. HttpResponse 500 (NotJson ''Internal Server Error'')) ''Jaipur'' [] 24
     = Inl (FetchError ''500 Server Error'')
   \<and> dashboard (\<lambda>q. HttpResponse 500 (NotJson ''Internal Server Error'')) ''Jaipur'' [] 24
     = Inr \<lparr>status_shown = Error ''Data fetch error: 500 Server Error'', df_bound = None,
            ctx_summary = ''No recent measurements found.'',
            metric = ''No recent measurements found.''\<rparr>"
proof -
  let ?get = "\<lambda>q::query. HttpResponse 500 (NotJson ''Internal Server Error'')"
  have "\<exists>msg. fetch_openaq ?get ''Jaipur'' [] 24 = Inl (FetchError msg)
     \<and> dashboard ?get ''Jaipur'' [] 24
         = Inr \<lparr>status_shown = Error (''Data fetch error: '' @ msg), df_bound = None,
                ctx_summary = ''No recent measurements found.'',
                metric = ''No recent measurements found.''\<rparr>"
    by (rule fetch_failure_caught [where status = 500]) simp
  moreover have "fetch_openaq ?get ''Jaipur'' [] 24 = Inl (FetchError ''500 Server Error'')"
    by (simp add: fetch_openaq_def raise_for_status_def show_nat_examples)
  ultimately show ?thesis by auto
qed

subsection \<open>The chat log\<close>

lemma all_dropWhile_iff:
  "(\<forall>x\<in>set (dropWhile P s). P x) \<longleftrightarrow> (\<forall>c\<in>set s. P c)"
  by (induction s) auto

lemma strip_Nil_iff: "strip s = [] \<longleftrightarrow> (\<forall>c\<in>set s. is_space c)"
  by (simp add: strip_def all_dropWhile_iff)

lemma strip_hello: "strip ''hello'' \<noteq> []"
  by (simp add: strip_def is_space_def)

text \<open>
  C8: when the user text is empty or consists of whitespace only, the handler leaves the
  session as it is, whether or not the button was pressed and whatever the model is: no
  user entry and no assistant entry is appended, and no prompt is passed to the language
  model.
\<close>

theorem chat_blank_unchanged:
  "\<forall>c\<in>set user_msg. is_space c \<Longrightarrow>
   chat_submit model city context send user_msg s = s"
  by (simp add: chat_submit_def strip_Nil_iff)

theorem chat_blank_unchanged_witness:
  "chat_submit (Some (\<lambda>p. Returns (Text ''hi''))) ''Jaipur'' ''No recent measurements found.''
     True [CHR '' '', CHR 0x09, CHR '' '']
     \<lparr>chat_history = [(''user'', ''a''), (''assistant'', ''b'')], api_calls = [''p'']\<rparr>
   = \<lparr>chat_history = [(''user'', ''a''), (''assistant'', ''b'')], api_calls = [''p'']\<rparr>"
proof -
  have "\<forall>c\<in>set [CHR '' '', CHR 0x09, CHR '' '']. is_space c"
    by (simp add: is_space_def)
  then show ?thesis
    by (rule chat_blank_unchanged)
qed

text \<open>
  C10: when the call of the language model returns a response that has no text attribute,
  the assistant entry appended after the user entry is exactly "No response.": it is not
  an error entry, and the handler does not fail.
\<close>

theorem chat_no_text_attribute:
  "send \<Longrightarrow> strip user_msg \<noteq> [] \<Longrightarrow>
   m (final_prompt city context user_msg) = Returns NoText \<Longrightarrow>
   chat_history (chat_submit (Some m) city context send user_msg s)
     = chat_history s @ [(''user'', user_msg), (''assistant'', ''No response.'')]"
  by (simp add: chat_submit_def answer_of_def)

theorem chat_no_text_attribute_witness:
  "chat_history (chat_submit (Some (\<lambda>p. Returns NoText)) ''Jaipur'' ''ctx'' True ''hello''
      \<lparr>chat_history = [], api_calls = []\<rparr>)
   = [(''user'', ''hello''), (''assistant'', ''No response.'')]"
  using chat_no_text_attribute [of True "''hello''" "\<lambda>p. Returns NoText" "''Jaipur''" "''ctx''"
      "\<lparr>chat_history = [], api_calls = []\<rparr>"] strip_hello
  by simp

text \<open>
  C5 as stated fails: a text of one space is not empty, yet the submission appends
  nothing, whatever the model does.
\<close>

theorem chat_nonempty_blank_counterexample:
  "'' '' \<noteq> []
   \<and> length (chat_history (chat_submit (Some (\<lambda>p. Raises ''quota exceeded'')) ''Jaipur''
          ''No recent measurements found.'' True '' ''
          \<lparr>chat_history = [(''user'', ''a''), (''assistant'', ''b'')], api_calls = [''p'']\<rparr>))
     \<noteq> length [(''user'', ''a''), (''assistant'', ''b'')] + 2"
  by (simp add: chat_submit_def strip_def is_space_def)

text \<open>
  C5, amended: for every chat submission whose user text has a character that is not
  whitespace, whatever the model is and whatever its call does: the log grows by exactly
  two entries, a user entry with the submitted text followed by an assistant entry; the
  entries it had stay in their places, unchanged; and when the call of the language
  model, or the reading of the text of its response, raises an error, the assistant
  entry is "Model error: " followed by the error text.
\<close>

theorem chat_submit_appends_two:
  "send \<Longrightarrow> strip user_msg \<noteq> [] \<Longrightarrow>
   (let old = chat_history s;
        new = chat_history (chat_submit model city context send user_msg s);
        prompt = final_prompt city context user_msg
    in length new = length old + 2
       \<and> take (length old) new = old
       \<and> new = old @ [(''user'', user_msg), (''assistant'', fst (answer_of model prompt))]
       \<and> (\<forall>m e. model = Some m \<and> (m prompt = Raises e \<or> m prompt = Returns (TextRaises e))
            \<longrightarrow> new = old @ [(''user'', user_msg), (''assistant'', ''Model error: '' @ e)]))"
  by (auto simp: chat_submit_def answer_of_def Let_def split: prod.splits)

theorem chat_submit_appends_two_witness:
  "chat_history (chat_submit (Some (\<lambda>p. Raises ''quota exceeded'')) ''Jaipur''
      ''No recent measurements found.'' True ''hello''
      \<lparr>chat_history = [(''user'', ''a''), (''assistant'', ''b'')], api_calls = [''p'']\<rparr>)
   = [(''user'', ''a''), (''assistant'', ''b''), (''user'', ''hello''),
      (''assistant'', ''Model error: quota exceeded'')]"
  using chat_submit_appends_two [of True "''hello''"
      "\<lparr>chat_history = [(''user'', ''a''), (''assistant'', ''b'')], api_calls = [''p'']\<rparr>"
      "Some (\<lambda>p. Raises ''quota exceeded'')" "''Jaipur''" "''No recent measurements found.''"]
    strip_hello
  by (simp add: Let_def answer_of_def)

text \<open>
  C6 as stated fails: with no credential, a text that is a single tab is not empty, and
  the submission appends neither a user entry nor the fixed assistant entry.
\<close>

theorem chat_unconfigured_blank_counterexample:
  "[CHR 0x09] \<noteq> []
   \<and> chat_history (chat_submit (init_model None (Inl ''unused'')) ''Jaipur''
        ''No recent measurements found.'' True [CHR 0x09]
        \<lparr>chat_history = [], api_calls = []\<rparr>) = []"
  by (simp add: chat_submit_def strip_def is_space_def)

text \<open>
  C6, amended: when no credential is configured (the key is unset or empty), a chat
  submission whose user text has a character that is not whitespace, "hello" for one,
  appends a user entry equal to the submitted text and an assistant entry equal to
  "Gemini is not configured. Please set GEMINI_API_KEY.", and no prompt is passed to the
  language model.
\<close>

theorem chat_unconfigured:
  "gemini_key = None \<or> gemini_key = Some [] \<Longrightarrow> send \<Longrightarrow> strip user_msg \<noteq> [] \<Longrightarrow>
   chat_history (chat_submit (init_model gemini_key constructed) city context send user_msg s)
     = chat_history s @ [(''user'', user_msg),
          (''assistant'', ''Gemini is not configured. Please set GEMINI_API_KEY.'')]
   \<and> api_calls (chat_submit (init_model gemini_key constructed) city context send user_msg s)
     = api_calls s"
  by (auto simp: chat_submit_def answer_of_def init_model_def)

theorem chat_unconfigured_witness:
  "chat_history (chat_submit (init_model None (Inr (\<lambda>p. Returns (Text ''hi'')))) ''Jaipur''
      ''No recent measurements found.'' True ''hello'' \<lparr>chat_history = [], api_calls = []\<rparr>)
     = [(''user'', ''hello''),
        (''assistant'', ''Gemini is not configured. Please set GEMINI_API_KEY.'')]
   \<and> api_calls (chat_submit (init_model None (Inr (\<lambda>p. Returns (Text ''hi'')))) ''Jaipur''
      ''No recent measurements found.'' True ''hello'' \<lparr>chat_history = [], api_calls = []\<rparr>)
     = []"
  using chat_unconfigured [of None True "''hello''" "Inr (\<lambda>p. Returns (Text ''hi''))" "''Jaipur''"
      "''No recent measurements found.''" "\<lparr>chat_history = [], api_calls = []\<rparr>"]
    strip_hello
  by simp

end
